theory Spec2Isabelle
  imports Main "HOL-Library.Word"
begin

section \<open>Go errors\<close>

text \<open>
  The sentinel error values of the program (\<open>lib.ErrAvoidReleaseTag\<close>,
  \<open>lib.ErrAlreadyInstalled\<close>, \<open>lib.ErrAssetsNotFound\<close>,
  \<open>lib.ErrAssetsCannotDownload\<close>, \<open>cmd.ErrRollback\<close>, \<open>cmd.ErrNoRollback\<close>) and the
  one of the store client (\<open>redis.Nil\<close>).
\<close>

datatype sentinel =
    ErrAvoidReleaseTag
  | ErrAlreadyInstalled
  | ErrAssetsNotFound
  | ErrAssetsCannotDownload
  | ErrRollback
  | ErrNoRollback
  | redis_Nil

text \<open>
  An error value. \<open>Opaque\<close> is an error that carries only its text: \<open>errors.New\<close>,
  \<open>fmt.Errorf\<close> with the verb \<open>%s\<close> (which formats the cause and does not keep it), and the
  errors of the store client and of \<open>os/exec\<close>. \<open>Wrapped\<close> is \<open>errors.Wrap\<close> of
  \<open>github.com/pkg/errors\<close>, which keeps the cause. \<open>Attempts\<close> is \<open>retry.Error\<close>, the
  list of the errors of the attempts.
\<close>

datatype go_error =
    Sentinel sentinel
  | Opaque string
  | Wrapped go_error string
  | Attempts "go_error list"

fun decimal :: "nat \<Rightarrow> string" where
  "decimal n =
     (if n < 10 then [char_of (48 + n)]
      else decimal (n div 10) @ [char_of (48 + n mod 10)])"

declare decimal.simps [simp del]

definition sentinelText :: "sentinel \<Rightarrow> string" where
  "sentinelText s =
     (case s of
        ErrAvoidReleaseTag \<Rightarrow> ''avoid release tag''
      | ErrAlreadyInstalled \<Rightarrow> ''already installed''
      | ErrAssetsNotFound \<Rightarrow> ''no match assets''
      | ErrAssetsCannotDownload \<Rightarrow> ''assets cannot download''
      | ErrRollback \<Rightarrow> ''rollback''
      | ErrNoRollback \<Rightarrow> ''no rollback''
      | redis_Nil \<Rightarrow> ''redis: nil'')"

fun numbered :: "nat \<Rightarrow> string list \<Rightarrow> string" where
  "numbered i [] = []"
| "numbered i (m # ms) =
     CHR 0x0A # CHR ''#'' # decimal i @ '': '' @ m @ numbered (Suc i) ms"

text \<open>The method \<open>Error()\<close>: the text of an error.\<close>

fun errorString :: "go_error \<Rightarrow> string" where
  "errorString (Sentinel s) = sentinelText s"
| "errorString (Opaque m) = m"
| "errorString (Wrapped e m) = m @ '': '' @ errorString e"
| "errorString (Attempts es) = ''All attempts fail:'' @ numbered 1 (map errorString es)"

text \<open>
  \<open>errors.Is(err, target)\<close> for a sentinel target: the chain of causes is followed through
  \<open>errors.Wrap\<close>; an error built by \<open>fmt.Errorf\<close> with \<open>%s\<close> has no cause to follow.
\<close>

fun errors_Is :: "go_error \<Rightarrow> sentinel \<Rightarrow> bool" where
  "errors_Is (Sentinel s) t = (s = t)"
| "errors_Is (Opaque m) t = False"
| "errors_Is (Wrapped e m) t = errors_Is e t"
| "errors_Is (Attempts es) t = False"

section \<open>The world: shared store, local node, schedules\<close>

text \<open>\<open>time.Duration\<close>: a signed 64-bit count of nanoseconds; arithmetic wraps.\<close>

type_synonym duration = "64 word"

text \<open>A value of the shared store: a string, or a set (its members in the order
  \<open>SMEMBERS\<close> lists them, without repetition).\<close>

datatype rval = RString string | RSet "string list"

datatype level = LevelDebug | LevelInfo | LevelWarn | LevelError

text \<open>What one run of a shell command does: the combined output captured, whether it
  exits with status zero, and how long it runs (nanoseconds).\<close>

record proc =
  p_out :: string
  p_ok :: bool
  p_time :: nat

text \<open>The record a member writes under its own key.\<close>

record MemberState =
  CurrentVersion :: string

text \<open>The two channels \<open>runHealthCheck\<close> selects on.\<close>

datatype hc_event = HealthCheckTick | CanaryReleaseTick

text \<open>
  Everything outside the process that the code reads or changes.
  \<^item> \<open>store\<close>: the key space of the shared store; each key has a value and, when it has a
    time to live, the time at which it expires. \<open>clock\<close> is the current time (nanoseconds).
  \<^item> \<open>faults\<close>: for each coming round trip to the store, whether it fails
    (a connection error); when the list is used up no round trip fails.
  \<^item> \<open>vers\<close>: what the \<open>n\<close>-th run of the version command gives, its standard output or the
    error of \<open>exec\<close>; \<open>nvers\<close> counts the runs.
  \<^item> \<open>procs\<close>: what the \<open>n\<close>-th command run by \<open>executeCommand\<close> does; \<open>execs\<close> lists the
    runs made: command, \<open>RELEASE_TAG\<close>, \<open>ASSET_FILE\<close>.
  \<^item> \<open>assets\<close>: what the \<open>n\<close>-th call of the interface \<open>GitHuber\<close> returns; \<open>requests\<close> lists
    the tags asked for.
  \<^item> \<open>selects\<close>: which channel each coming \<open>select\<close> of \<open>runHealthCheck\<close> receives from.
  \<^item> \<open>delayType\<close>: the wait the retry library computes after the \<open>n\<close>-th failed attempt
    from the configured delay.
  \<^item> \<open>json_Marshal\<close>, \<open>json_Unmarshal\<close>: the two functions of \<open>encoding/json\<close> at the type
    \<open>MemberState\<close>; the model is stated for any pair of them.
  \<^item> \<open>logs\<close>: the records written through \<open>slog\<close>, level and message.
\<close>

record world =
  store :: "string \<rightharpoonup> rval \<times> int option"
  clock :: int
  faults :: "bool list"
  vers :: "nat \<Rightarrow> go_error + string"
  nvers :: nat
  procs :: "nat \<Rightarrow> proc"
  execs :: "(string \<times> string \<times> string) list"
  assets :: "nat \<Rightarrow> string \<times> string \<times> go_error option"
  requests :: "string list"
  selects :: "hc_event list"
  delayType :: "nat \<Rightarrow> duration \<Rightarrow> duration"
  json_Marshal :: "MemberState \<Rightarrow> string"
  json_Unmarshal :: "string \<Rightarrow> go_error + MemberState"
  logs :: "(level \<times> string) list"

definition slog :: "level \<Rightarrow> string \<Rightarrow> world \<Rightarrow> world" where
  "slog l m w = w\<lparr>logs := logs w @ [(l, m)]\<rparr>"

subsection \<open>The store client\<close>

definition connErr :: go_error where
  "connErr = Opaque ''dial tcp: connect: connection refused''"

definition wrongType :: go_error where
  "wrongType = Opaque ''WRONGTYPE Operation against a key holding the wrong kind of value''"

definition invalidExpire :: go_error where
  "invalidExpire = Opaque ''ERR invalid expire time in setex command''"

text \<open>A key is there when it was written and has not expired.\<close>

definition lookup :: "world \<Rightarrow> string \<Rightarrow> (rval \<times> int option) option" where
  "lookup w k =
     (case store w k of
        None \<Rightarrow> None
      | Some (v, None) \<Rightarrow> Some (v, None)
      | Some (v, Some t) \<Rightarrow> if t \<le> clock w then None else Some (v, Some t))"

definition roundTrip :: "world \<Rightarrow> bool \<times> world" where
  "roundTrip w = (case faults w of [] \<Rightarrow> (False, w) | b # bs \<Rightarrow> (b, w\<lparr>faults := bs\<rparr>))"

text \<open>One round trip carrying one command: it fails as a whole, or the server runs the
  command.\<close>

definition call :: "(world \<Rightarrow> (go_error + 'a) \<times> world) \<Rightarrow> world \<Rightarrow> (go_error + 'a) \<times> world" where
  "call cmd w = (case roundTrip w of (True, w1) \<Rightarrow> (Inl connErr, w1) | (False, w1) \<Rightarrow> cmd w1)"

definition cmd_SetNX :: "string \<Rightarrow> string \<Rightarrow> world \<Rightarrow> (go_error + bool) \<times> world" where
  "cmd_SetNX k v w =
     (case lookup w k of
        None \<Rightarrow> (Inr True, w\<lparr>store := (store w)(k \<mapsto> (RString v, None))\<rparr>)
      | Some e \<Rightarrow> (Inr False, w))"

definition cmd_Expire :: "string \<Rightarrow> duration \<Rightarrow> world \<Rightarrow> (go_error + bool) \<times> world" where
  "cmd_Expire k d w =
     (case lookup w k of
        None \<Rightarrow> (Inr False, w)
      | Some (v, e) \<Rightarrow> (Inr True, w\<lparr>store := (store w)(k \<mapsto> (v, Some (clock w + sint d)))\<rparr>))"

definition cmd_Del :: "string \<Rightarrow> world \<Rightarrow> (go_error + nat) \<times> world" where
  "cmd_Del k w =
     (case lookup w k of
        None \<Rightarrow> (Inr 0, w\<lparr>store := (store w)(k := None)\<rparr>)
      | Some e \<Rightarrow> (Inr 1, w\<lparr>store := (store w)(k := None)\<rparr>))"

definition cmd_Set :: "string \<Rightarrow> string \<Rightarrow> world \<Rightarrow> (go_error + unit) \<times> world" where
  "cmd_Set k v w = (Inr (), w\<lparr>store := (store w)(k \<mapsto> (RString v, None))\<rparr>)"

definition cmd_SetEx :: "string \<Rightarrow> string \<Rightarrow> duration \<Rightarrow> world \<Rightarrow> (go_error + unit) \<times> world" where
  "cmd_SetEx k v d w =
     (if sint d \<le> 0 then (Inl invalidExpire, w)
      else (Inr (), w\<lparr>store := (store w)(k \<mapsto> (RString v, Some (clock w + sint d)))\<rparr>))"

definition cmd_Get :: "string \<Rightarrow> world \<Rightarrow> (go_error + string) \<times> world" where
  "cmd_Get k w =
     (case lookup w k of
        None \<Rightarrow> (Inl (Sentinel redis_Nil), w)
      | Some (RString v, e) \<Rightarrow> (Inr v, w)
      | Some (RSet xs, e) \<Rightarrow> (Inl wrongType, w))"

fun sadd :: "string list \<Rightarrow> string list \<Rightarrow> string list" where
  "sadd xs [] = xs"
| "sadd xs (m # ms) = sadd (if m \<in> set xs then xs else xs @ [m]) ms"

definition cmd_SAdd :: "string \<Rightarrow> string list \<Rightarrow> world \<Rightarrow> (go_error + nat) \<times> world" where
  "cmd_SAdd k ms w =
     (case lookup w k of
        None \<Rightarrow>
          (Inr (length (sadd [] ms)),
           if ms = [] then w else w\<lparr>store := (store w)(k \<mapsto> (RSet (sadd [] ms), None))\<rparr>)
      | Some (RString v, e) \<Rightarrow> (Inl wrongType, w)
      | Some (RSet xs, e) \<Rightarrow>
          (Inr (length (sadd xs ms) - length xs),
           w\<lparr>store := (store w)(k \<mapsto> (RSet (sadd xs ms), e))\<rparr>))"

definition cmd_SMembers :: "string \<Rightarrow> world \<Rightarrow> (go_error + string list) \<times> world" where
  "cmd_SMembers k w =
     (case lookup w k of
        None \<Rightarrow> (Inr [], w)
      | Some (RString v, e) \<Rightarrow> (Inl wrongType, w)
      | Some (RSet xs, e) \<Rightarrow> (Inr xs, w))"

definition cmd_SRem :: "string \<Rightarrow> string list \<Rightarrow> world \<Rightarrow> (go_error + nat) \<times> world" where
  "cmd_SRem k ms w =
     (case lookup w k of
        None \<Rightarrow> (Inr 0, w)
      | Some (RString v, e) \<Rightarrow> (Inl wrongType, w)
      | Some (RSet xs, e) \<Rightarrow>
          (let ys = filter (\<lambda>x. x \<notin> set ms) xs
           in (Inr (length xs - length ys),
               if ys = [] then w\<lparr>store := (store w)(k := None)\<rparr>
               else w\<lparr>store := (store w)(k \<mapsto> (RSet ys, e))\<rparr>)))"

text \<open>The result of a command read as \<open>.Err()\<close>.\<close>

definition Err :: "(go_error + 'a) \<times> world \<Rightarrow> go_error option \<times> world" where
  "Err r = (case r of (Inl e, w) \<Rightarrow> (Some e, w) | (Inr v, w) \<Rightarrow> (None, w))"

section \<open>Configuration and coordination state (package lib)\<close>

record Config =
  Repo :: string
  KeyPrefix :: string
  SaveAssetsPath :: string
  DeployCommand :: string
  RollbackCommand :: string
  HealthCheckCommand :: string
  VersionCommand :: string
  HealthCheckInterval :: duration
  CanaryRolloutWindow :: duration
  RolloutWindow :: duration
  RepositryPollingInterval :: duration
  HealthCheckRetries :: "64 word"
  HealthCheckTimeout :: duration
  IncludePreRelease :: bool

record State =
  me :: string
  canaryReleaseTagKey :: string
  stableReleaseTagKey :: string
  avoidReleaseTagKey :: string
  membersTagKey :: string
  rolloutKey :: string
  config :: Config

text \<open>\<open>NewState\<close>, given the host name (the connection and its ping are outside the
  model).\<close>

definition NewState :: "Config \<Rightarrow> string \<Rightarrow> State" where
  "NewState c hostname =
     (let prefix = (if KeyPrefix c \<noteq> [] then KeyPrefix c else Repo c)
      in \<lparr>me = hostname @ '':'' @ prefix,
          canaryReleaseTagKey = prefix @ ''_canary_release_tag'',
          stableReleaseTagKey = prefix @ ''_stable_release_tag'',
          avoidReleaseTagKey = prefix @ ''_avoid_release_tag'',
          membersTagKey = prefix @ ''_members_tag'',
          rolloutKey = prefix @ ''_rollout'',
          config = c\<rparr>)"

definition UnlockCanaryRelease :: "State \<Rightarrow> world \<Rightarrow> go_error option \<times> world" where
  "UnlockCanaryRelease s w = Err (call (cmd_Del (canaryReleaseTagKey s)) w)"

definition getLock :: "State \<Rightarrow> string \<Rightarrow> string \<Rightarrow> duration \<Rightarrow> world \<Rightarrow> (go_error + bool) \<times> world" where
  "getLock s key tag window w =
     (case call (cmd_SetNX key tag) w of
        (Inl err, w1) \<Rightarrow> (Inl err, w1)
      | (Inr ok, w1) \<Rightarrow>
          if ok then
            (case Err (call (cmd_Expire key window) w1) of
               (Some err, w2) \<Rightarrow> (Inl err, w2)
             | (None, w2) \<Rightarrow> (Inr True, w2))
          else (Inr False, w1))"

definition TryCanaryReleaseLock :: "State \<Rightarrow> string \<Rightarrow> world \<Rightarrow> (go_error + bool) \<times> world" where
  "TryCanaryReleaseLock s tag w =
     getLock s (canaryReleaseTagKey s) tag (CanaryRolloutWindow (config s) * 2) w"

definition TryRolloutLock :: "State \<Rightarrow> string \<Rightarrow> world \<Rightarrow> (go_error + bool) \<times> world" where
  "TryRolloutLock s tag w = getLock s (rolloutKey s) tag (RolloutWindow (config s)) w"

definition IsAvoidReleaseTag :: "State \<Rightarrow> string \<Rightarrow> go_error option" where
  "IsAvoidReleaseTag s tag = None"

definition saveRelease :: "State \<Rightarrow> string \<Rightarrow> string \<Rightarrow> world \<Rightarrow> go_error option \<times> world" where
  "saveRelease s key tag w = Err (call (cmd_Set key tag) w)"

definition saveReleases :: "State \<Rightarrow> string \<Rightarrow> string list \<Rightarrow> world \<Rightarrow> go_error option \<times> world" where
  "saveReleases s key tags w = Err (call (cmd_SAdd key tags) w)"

definition SaveStableReleaseTag :: "State \<Rightarrow> string \<Rightarrow> world \<Rightarrow> go_error option \<times> world" where
  "SaveStableReleaseTag s tag w = saveRelease s (stableReleaseTagKey s) tag w"

definition SaveAvoidReleaseTag :: "State \<Rightarrow> string \<Rightarrow> world \<Rightarrow> go_error option \<times> world" where
  "SaveAvoidReleaseTag s tag w = saveReleases s (avoidReleaseTagKey s) [tag] w"

definition getRelease :: "State \<Rightarrow> string \<Rightarrow> world \<Rightarrow> (go_error + string) \<times> world" where
  "getRelease s key w =
     (case call (cmd_Get key) w of
        (Inl err, w1) \<Rightarrow>
          if err = Sentinel redis_Nil then (Inr [], w1) else (Inl err, w1)
      | (Inr v, w1) \<Rightarrow> (Inr v, w1))"

definition CurrentStableTag :: "State \<Rightarrow> world \<Rightarrow> (go_error + string) \<times> world" where
  "CurrentStableTag s w = getRelease s (stableReleaseTagKey s) w"

definition getReleases :: "State \<Rightarrow> string \<Rightarrow> world \<Rightarrow> (go_error + string list) \<times> world" where
  "getReleases s key w = call (cmd_SMembers key) w"

text \<open>\<open>strings.TrimSpace\<close> and \<open>strings.TrimRight\<close>, on the white space of ASCII.\<close>

definition isSpace :: "char \<Rightarrow> bool" where
  "isSpace c = (c \<in> {CHR 0x09, CHR 0x0A, CHR 0x0B, CHR 0x0C, CHR 0x0D, CHR '' ''})"

definition TrimRight :: "string \<Rightarrow> string \<Rightarrow> string" where
  "TrimRight x cutset = rev (dropWhile (\<lambda>c. c \<in> set cutset) (rev x))"

definition TrimSpace :: "string \<Rightarrow> string" where
  "TrimSpace x = rev (dropWhile isSpace (rev (dropWhile isSpace x)))"

definition GetLastInstalledTag :: "State \<Rightarrow> world \<Rightarrow> (go_error + string) \<times> world" where
  "GetLastInstalledTag s w =
     (let w1 = w\<lparr>nvers := Suc (nvers w)\<rparr>
      in case vers w (nvers w) of
           Inl err \<Rightarrow> (Inl err, w1)
         | Inr out \<Rightarrow> (Inr (TrimRight (TrimSpace out) [CHR 0x0A]), w1))"

definition CanInstallTag :: "State \<Rightarrow> string \<Rightarrow> world \<Rightarrow> go_error option \<times> world" where
  "CanInstallTag s tag w =
     (if tag = [] then (Some (Opaque ''tag is empty''), w)
      else
        (case GetLastInstalledTag s w of
           (Inl err, w1) \<Rightarrow> (Some err, w1)
         | (Inr lastInstalledTag, w1) \<Rightarrow>
             if lastInstalledTag = [] then (None, w1)
             else if lastInstalledTag = tag then (Some (Sentinel ErrAlreadyInstalled), w1)
             else
               (case getReleases s (avoidReleaseTagKey s) w1 of
                  (Inl err, w2) \<Rightarrow> (Some err, w2)
                | (Inr tags, w2) \<Rightarrow>
                    if tag \<in> set tags then (Some (Sentinel ErrAvoidReleaseTag), w2)
                    else (None, w2))))"

definition RollbackTag :: "State \<Rightarrow> string \<Rightarrow> world \<Rightarrow> (go_error + string) \<times> world" where
  "RollbackTag s beforeInstall w =
     (case (if beforeInstall = [] then CurrentStableTag s w else (Inr beforeInstall, w)) of
        (Inl err, w1) \<Rightarrow> (Inl err, w1)
      | (Inr rollbackTag, w1) \<Rightarrow>
          if rollbackTag = [] then (Inl (Opaque ''can't decided rollback tag''), w1)
          else (Inr rollbackTag, w1))"

text \<open>
  \<open>SaveMemberState\<close>: the pipeline queues \<open>SADD\<close>, the version command runs, the pipeline
  queues \<open>SETEX\<close>, and \<open>Exec\<close> sends both commands in one round trip; its error is the
  first error of a command.
\<close>

definition SaveMemberState :: "State \<Rightarrow> world \<Rightarrow> go_error option \<times> world" where
  "SaveMemberState s w =
     (case GetLastInstalledTag s w of
        (Inl err, w1) \<Rightarrow> (Some err, w1)
      | (Inr currentVersion, w1) \<Rightarrow>
          (let b = json_Marshal w1 \<lparr>CurrentVersion = currentVersion\<rparr>
           in case roundTrip w1 of
                (True, w2) \<Rightarrow> (Some connErr, w2)
              | (False, w2) \<Rightarrow>
                  (case cmd_SAdd (membersTagKey s) [me s] w2 of
                     (r1, w3) \<Rightarrow>
                       (case cmd_SetEx (me s) b (RolloutWindow (config s) * 2) w3 of
                          (r2, w4) \<Rightarrow>
                            (case r1 of
                               Inl err \<Rightarrow> (Some err, w4)
                             | Inr n \<Rightarrow>
                                 (case r2 of
                                    Inl err \<Rightarrow> (Some err, w4)
                                  | Inr u \<Rightarrow> (None, w4)))))))"

text \<open>The loop of \<open>GetRolloutProgress\<close> over the members read from the registry; it carries
  \<open>installed\<close> and \<open>deletedMembers\<close>.\<close>

fun progressLoop ::
  "string \<Rightarrow> string list \<Rightarrow> nat \<Rightarrow> string list \<Rightarrow> world \<Rightarrow> (go_error + nat \<times> string list) \<times> world" where
  "progressLoop tag [] installed deletedMembers w = (Inr (installed, deletedMembers), w)"
| "progressLoop tag (m # ms) installed deletedMembers w =
     (case call (cmd_Get m) w of
        (Inl err, w1) \<Rightarrow>
          if err = Sentinel redis_Nil then progressLoop tag ms installed (deletedMembers @ [m]) w1
          else (Inl err, w1)
      | (Inr b, w1) \<Rightarrow>
          (case json_Unmarshal w1 b of
             Inl err \<Rightarrow> (Inl err, w1)
           | Inr st \<Rightarrow>
               progressLoop tag ms
                 (if CurrentVersion st = tag then installed + 1 else installed) deletedMembers w1))"

definition GetRolloutProgress :: "State \<Rightarrow> string \<Rightarrow> world \<Rightarrow> (go_error + nat \<times> nat) \<times> world" where
  "GetRolloutProgress s tag w =
     (case (case call (cmd_SMembers (membersTagKey s)) w of
              (Inl err, w1) \<Rightarrow> ([], w1)
            | (Inr ms, w1) \<Rightarrow> (ms, w1)) of
        (members, w1) \<Rightarrow>
          (let all = length members
           in case progressLoop tag members 0 [] w1 of
                (Inl err, w2) \<Rightarrow> (Inl err, w2)
              | (Inr (installed, deletedMembers), w2) \<Rightarrow>
                  if length deletedMembers > 0 then
                    (case Err (call (cmd_SRem (membersTagKey s) deletedMembers) w2) of
                       (Some err, w3) \<Rightarrow> (Inl err, w3)
                     | (None, w3) \<Rightarrow> (Inr (installed, all), w3))
                  else (Inr (installed, all), w2)))"

section \<open>The control loops (package cmd)\<close>

text \<open>The interface \<open>GitHuber\<close>: the call records the tag asked for and returns what the
  implementation behind the interface answers.\<close>

definition DownloadReleaseAsset :: "string \<Rightarrow> world \<Rightarrow> (string \<times> string \<times> go_error option) \<times> world" where
  "DownloadReleaseAsset tag w = (assets w (length (requests w)), w\<lparr>requests := requests w @ [tag]\<rparr>)"

definition LatestTag :: string where
  "LatestTag = ''latest''"

text \<open>
  \<open>executeCommand\<close>: the command runs with \<open>RELEASE_TAG\<close> and \<open>ASSET_FILE\<close> set; with a
  positive timeout it is killed when it runs that long. The result is the combined output and
  the error of \<open>exec\<close>.
\<close>

definition executeCommand ::
  "string \<Rightarrow> string \<Rightarrow> string \<Rightarrow> duration \<Rightarrow> world \<Rightarrow> (string \<times> go_error option) \<times> world" where
  "executeCommand command tag file timeout w =
     (let p = procs w (length (execs w));
          killed = (0 < sint timeout \<and> sint timeout \<le> int (p_time p));
          w1 = w\<lparr>execs := execs w @ [(command, tag, file)],
                 clock := clock w + (if killed then sint timeout else int (p_time p))\<rparr>
      in if killed then ((p_out p, Some (Opaque ''signal: killed'')), w1)
         else if \<not> p_ok p then ((p_out p, Some (Opaque ''exit status 1'')), w1)
         else ((p_out p, None), slog LevelDebug ''command result'' w1))"

text \<open>\<open>5*time.Minute\<close>, in nanoseconds.\<close>

definition fiveMinutes :: duration where
  "fiveMinutes = 300000000000"

definition deploy :: "string \<Rightarrow> string \<Rightarrow> State \<Rightarrow> world \<Rightarrow> (go_error + string \<times> string) \<times> world" where
  "deploy cmd targetTag s w =
     (case DownloadReleaseAsset targetTag w of
        ((tag, downloadFile, Some err), w1) \<Rightarrow>
          (Inl (Opaque (''can't get release asset:'' @ tag @ '' '' @ errorString err)), w1)
      | ((tag, downloadFile, None), w1) \<Rightarrow>
          (case GetLastInstalledTag s w1 of
             (Inl err, w2) \<Rightarrow> (Inl (Opaque (''can't get current version:'' @ errorString err)), w2)
           | (Inr currentVersion, w2) \<Rightarrow>
               (case executeCommand cmd tag downloadFile fiveMinutes
                       (slog LevelInfo ''deploy version info'' w2) of
                  ((out, Some err), w3) \<Rightarrow>
                    (Inl (Opaque (''failed to execute command: '' @ errorString err @ '', '' @ out)), w3)
                | ((out, None), w3) \<Rightarrow> (Inr (tag, downloadFile), w3))))"

definition handleRollout :: "Config \<Rightarrow> State \<Rightarrow> world \<Rightarrow> go_error option \<times> world" where
  "handleRollout c s w =
     (case SaveMemberState s w of
        (Some err, w1) \<Rightarrow> (Some err, w1)
      | (None, w1) \<Rightarrow>
          (case CurrentStableTag s w1 of
             (Inl err, w2) \<Rightarrow> (Some err, w2)
           | (Inr tag, w2) \<Rightarrow>
               if tag = [] then (None, w2)
               else
                 (case CanInstallTag s tag w2 of
                    (Some err, w3) \<Rightarrow> (Some err, w3)
                  | (None, w3) \<Rightarrow>
                      (case TryRolloutLock s tag w3 of
                         (Inl err, w4) \<Rightarrow> (Some err, w4)
                       | (Inr got, w4) \<Rightarrow>
                           if got then
                             (case deploy (DeployCommand c) tag s
                                     (slog LevelInfo ''lock success and start rollout'' w4) of
                                (Inl err, w5) \<Rightarrow> (Some (Wrapped err ''deploy command failed''), w5)
                              | (Inr d, w5) \<Rightarrow>
                                  (case (case SaveMemberState s w5 of
                                           (Some err, w6) \<Rightarrow>
                                             slog LevelError (''failed to save state: '' @ errorString err) w6
                                         | (None, w6) \<Rightarrow> w6) of
                                     w6 \<Rightarrow>
                                       (case GetRolloutProgress s tag w6 of
                                          (Inl err, w7) \<Rightarrow> (Some err, w7)
                                        | (Inr (installed, all), w7) \<Rightarrow>
                                            (None, slog LevelInfo ''rollout success'' w7))))
                           else (None, w4)))))"

definition handleRollback :: "string \<Rightarrow> Config \<Rightarrow> State \<Rightarrow> world \<Rightarrow> go_error option \<times> world" where
  "handleRollback rollbackTag c s w =
     (if RollbackCommand c = [] then (Some (Sentinel ErrNoRollback), w)
      else
        (case deploy (RollbackCommand c) rollbackTag s (slog LevelInfo ''start rollback'' w) of
           (Inl err, w1) \<Rightarrow> (Some (Wrapped err ''rollback command failed''), w1)
         | (Inr d, w1) \<Rightarrow> (Some (Sentinel ErrRollback), slog LevelInfo ''rollback success'' w1)))"

subsection \<open>The health check\<close>

definition ctxErr :: go_error where
  "ctxErr = Opaque ''context deadline exceeded''"

text \<open>
  \<open>retry.Do\<close> of the retry library, as \<open>runHealthCheck\<close> configures it: the loop over the
  attempts. \<open>k\<close> attempts are left of \<open>attempts\<close>; \<open>ret\<close> is the variable the closure assigns
  the output to; \<open>errorLog\<close> collects the errors. After a failed attempt that is not the
  last, the library waits \<open>delayType n delay\<close> unless the context is done first.
\<close>

fun retryLoop ::
  "Config \<Rightarrow> string \<Rightarrow> string \<Rightarrow> int \<Rightarrow> nat \<Rightarrow> nat \<Rightarrow> string \<Rightarrow> go_error list \<Rightarrow> world \<Rightarrow>
   (string \<times> go_error option) \<times> world" where
  "retryLoop c tag file deadline attempts 0 ret errorLog w = ((ret, Some (Attempts errorLog)), w)"
| "retryLoop c tag file deadline attempts (Suc k) ret errorLog w =
     (case executeCommand (HealthCheckCommand c) tag file (HealthCheckTimeout c) w of
        ((out, None), w1) \<Rightarrow> ((out, None), w1)
      | ((out, Some err), w1) \<Rightarrow>
          (let e = Opaque (''health check command failed: '' @ errorString err @ '', '' @ out);
               n = attempts - Suc k;
               delayTime = max 0 (sint (delayType w1 n (HealthCheckInterval c)))
           in if k = 0 then ((out, Some (Attempts (errorLog @ [e]))), w1)
              else if clock w1 + delayTime < deadline then
                retryLoop c tag file deadline attempts k out (errorLog @ [e])
                  (w1\<lparr>clock := clock w1 + delayTime\<rparr>)
              else ((out, Some ctxErr), w1\<lparr>clock := max (clock w1) deadline\<rparr>)))"

text \<open>The closure \<open>f\<close> of \<open>runHealthCheck\<close>: one burst of attempts under its own deadline.\<close>

definition burstTimeout :: "Config \<Rightarrow> duration" where
  "burstTimeout c =
     HealthCheckTimeout c * HealthCheckRetries c + HealthCheckInterval c * HealthCheckRetries c"

definition f :: "Config \<Rightarrow> string \<Rightarrow> string \<Rightarrow> world \<Rightarrow> (string \<times> go_error option) \<times> world" where
  "f c tag file w =
     (let deadline = clock w + sint (burstTimeout c)
      in if deadline \<le> clock w then (([], Some ctxErr), w)
         else retryLoop c tag file deadline (unat (HealthCheckRetries c))
                (unat (HealthCheckRetries c)) [] [] w)"

text \<open>
  The loop of \<open>runHealthCheck\<close> after the first burst. Each \<open>select\<close> receives from the
  channel the schedule names; when the schedule is used up the loop has not returned.
\<close>

fun watch ::
  "Config \<Rightarrow> string \<Rightarrow> string \<Rightarrow> hc_event list \<Rightarrow> world \<Rightarrow> ((string \<times> go_error option) \<times> world) option" where
  "watch c tag file [] w = None"
| "watch c tag file (CanaryReleaseTick # evs) w = Some (([], None), w\<lparr>selects := evs\<rparr>)"
| "watch c tag file (HealthCheckTick # evs) w =
     (case f c tag file w of
        ((out, Some err), w1) \<Rightarrow> Some ((out, Some err), w1\<lparr>selects := evs\<rparr>)
      | ((out, None), w1) \<Rightarrow> watch c tag file evs w1)"

definition runHealthCheck ::
  "Config \<Rightarrow> string \<Rightarrow> string \<Rightarrow> world \<Rightarrow> ((string \<times> go_error option) \<times> world) option" where
  "runHealthCheck c tag file w =
     (case f c tag file w of
        ((out, Some err), w1) \<Rightarrow> Some ((out, Some err), w1)
      | ((out, None), w1) \<Rightarrow> watch c tag file (selects w1) w1)"

subsection \<open>The canary cycle\<close>

text \<open>
  \<open>handleCanaryRelease\<close> is written in three parts. \<open>canaryDeploy\<close> is the function from its
  start to the return of \<open>deploy\<close>: it ends the cycle with an error or with nil (left), or it
  has deployed and gives the version installed before, the tag deployed and the file (right).
\<close>

definition canaryDeploy ::
  "Config \<Rightarrow> State \<Rightarrow> world \<Rightarrow> (go_error option + string \<times> string \<times> string) \<times> world" where
  "canaryDeploy c s w =
     (case SaveMemberState s w of
        (Some err, w1) \<Rightarrow> (Inl (Some err), w1)
      | (None, w1) \<Rightarrow>
     (case GetLastInstalledTag s w1 of
        (Inl err, w2) \<Rightarrow> (Inl (Some err), w2)
      | (Inr lastInstalledTag, w2) \<Rightarrow>
     (case CurrentStableTag s w2 of
        (Inl err, w3) \<Rightarrow> (Inl (Some err), w3)
      | (Inr stableTab, w3) \<Rightarrow>
     (case DownloadReleaseAsset LatestTag w3 of
        ((tag, file0, Some err), w4) \<Rightarrow>
          (Inl (Some (Opaque (''can't get release asset:'' @ tag @ '' '' @ errorString err))), w4)
      | ((tag, file0, None), w4) \<Rightarrow>
     if tag = stableTab then (Inl None, w4)
     else
     (case CanInstallTag s tag w4 of
        (Some err, w5) \<Rightarrow> (Inl (Some err), w5)
      | (None, w5) \<Rightarrow>
     (case TryCanaryReleaseLock s tag w5 of
        (Inl err, w6) \<Rightarrow> (Inl (Some err), w6)
      | (Inr got, w6) \<Rightarrow>
     if \<not> got then (Inl None, w6)
     else
     (case deploy (DeployCommand c) tag s
             (slog LevelInfo ''lock success and start canary release'' w6) of
        (Inl err, w7) \<Rightarrow> (Inl (Some (Wrapped err ''deploy command failed'')), w7)
      | (Inr (tag', filename), w7) \<Rightarrow> (Inr (lastInstalledTag, tag', filename), w7))))))))"

text \<open>The branch of \<open>handleCanaryRelease\<close> taken when \<open>runHealthCheck\<close> returns an error.\<close>

definition healthCheckFailed ::
  "Config \<Rightarrow> State \<Rightarrow> string \<Rightarrow> string \<Rightarrow> world \<Rightarrow> go_error option \<times> world" where
  "healthCheckFailed c s tag lastInstalledTag w =
     (case SaveAvoidReleaseTag s tag (slog LevelError ''health check command failed'' w) of
        (Some err, w1) \<Rightarrow> (Some (Opaque (''can't save avoid tag:'' @ errorString err)), w1)
      | (None, w1) \<Rightarrow>
          (case RollbackTag s lastInstalledTag w1 of
             (Inl err, w2) \<Rightarrow> (Some err, w2)
           | (Inr rollbackTag, w2) \<Rightarrow> handleRollback rollbackTag c s w2))"

text \<open>The branch of \<open>handleCanaryRelease\<close> taken when \<open>runHealthCheck\<close> returns no error.\<close>

definition healthCheckSucceeded :: "State \<Rightarrow> string \<Rightarrow> world \<Rightarrow> go_error option \<times> world" where
  "healthCheckSucceeded s tag w =
     (case SaveStableReleaseTag s tag (slog LevelInfo ''health check success'' w) of
        (Some err, w1) \<Rightarrow> (Some (Opaque (''can't save stable tag:'' @ errorString err)), w1)
      | (None, w1) \<Rightarrow>
          (case (case SaveMemberState s w1 of
                   (Some err, w2) \<Rightarrow>
                     slog LevelError (''failed to save state: '' @ errorString err) w2
                 | (None, w2) \<Rightarrow> w2) of
             w2 \<Rightarrow>
               (case UnlockCanaryRelease s w2 of
                  (Some err, w3) \<Rightarrow> (Some (Opaque ''can't unlock canary release tag''), w3)
                | (None, w3) \<Rightarrow> (None, slog LevelInfo ''canary release success'' w3))))"

text \<open>\<open>None\<close>: the health check is still watching, the function has not returned.\<close>

definition handleCanaryRelease :: "Config \<Rightarrow> State \<Rightarrow> world \<Rightarrow> (go_error option \<times> world) option" where
  "handleCanaryRelease c s w =
     (case canaryDeploy c s w of
        (Inl r, w1) \<Rightarrow> Some (r, w1)
      | (Inr (lastInstalledTag, tag, filename), w1) \<Rightarrow>
          (case runHealthCheck c tag filename
                  (slog LevelInfo ''deploy command success and start health check'' w1) of
             None \<Rightarrow> None
           | Some ((out, Some err), w2) \<Rightarrow> Some (healthCheckFailed c s tag lastInstalledTag w2)
           | Some ((out, None), w2) \<Rightarrow> Some (healthCheckSucceeded s tag w2)))"

subsection \<open>The loop of runServer\<close>

datatype ticker = rolloutTicker | gitTicker

text \<open>What one pass through the \<open>select\<close> of \<open>runServer\<close> ends in: the loop goes on, or
  \<open>runServer\<close> returns.\<close>

datatype pass = Continue world | Return "go_error option" world

definition rolloutTickerCase :: "bool \<Rightarrow> Config \<Rightarrow> State \<Rightarrow> world \<Rightarrow> pass" where
  "rolloutTickerCase once c s w =
     (case handleRollout c s w of
        (Some err, w1) \<Rightarrow>
          if errors_Is err ErrAlreadyInstalled then Continue (slog LevelDebug ''can't rollout'' w1)
          else if errors_Is err ErrAssetsCannotDownload then
            Continue (slog LevelWarn ''can't get assets files'' w1)
          else Return (Some err) w1
      | (None, w1) \<Rightarrow> Continue w1)"

definition gitTickerCase :: "bool \<Rightarrow> Config \<Rightarrow> State \<Rightarrow> world \<Rightarrow> pass option" where
  "gitTickerCase once c s w =
     (case handleCanaryRelease c s w of
        None \<Rightarrow> None
      | Some (r, w1) \<Rightarrow>
          (case (case r of
                   None \<Rightarrow> Continue w1
                 | Some err \<Rightarrow>
                     if errors_Is err ErrAssetsNotFound \<or> errors_Is err ErrAlreadyInstalled
                        \<or> errors_Is err ErrAvoidReleaseTag
                     then Continue (slog LevelDebug ''can't rollout'' w1)
                     else if errors_Is err ErrAssetsCannotDownload then
                       Continue (slog LevelWarn ''can't get assets files'' w1)
                     else if errors_Is err ErrRollback then
                       Continue (slog LevelWarn ''rollback success'' w1)
                     else if errors_Is err ErrNoRollback then
                       Continue (slog LevelInfo ''no rollback because no rollback command'' w1)
                     else Return (Some err) w1) of
             Continue w2 \<Rightarrow> Some (if once then Return None w2 else Continue w2)
           | Return e w2 \<Rightarrow> Some (Return e w2)))"

text \<open>
  The loop of \<open>runServer\<close>, over the tickers that fire. \<open>None\<close>: the process has not returned
  (the loop waits for the next tick, or a health check is still watching).
\<close>

fun runServer :: "bool \<Rightarrow> Config \<Rightarrow> State \<Rightarrow> ticker list \<Rightarrow> world \<Rightarrow> (go_error option \<times> world) option" where
  "runServer once c s [] w = None"
| "runServer once c s (rolloutTicker # ts) w =
     (case rolloutTickerCase once c s w of
        Continue w1 \<Rightarrow> runServer once c s ts w1
      | Return e w1 \<Rightarrow> Some (e, w1))"
| "runServer once c s (gitTicker # ts) w =
     (case gitTickerCase once c s w of
        None \<Rightarrow> None
      | Some (Continue w1) \<Rightarrow> runServer once c s ts w1
      | Some (Return e w1) \<Rightarrow> Some (e, w1))"

section \<open>Example configuration, state and world\<close>

text \<open>A concrete node, used to evaluate the model: one second of health-check timeout and
  interval, three attempts, a rollout window of one minute and a canary window of five.\<close>

definition exampleConfig :: Config where
  "exampleConfig =
     \<lparr>Repo = ''o/r'', KeyPrefix = [], SaveAssetsPath = ''/src'',
      DeployCommand = ''deploy'', RollbackCommand = ''rollback'',
      HealthCheckCommand = ''check'', VersionCommand = ''version'',
      HealthCheckInterval = 1000000000, CanaryRolloutWindow = 300000000000,
      RolloutWindow = 60000000000, RepositryPollingInterval = 300000000000,
      HealthCheckRetries = 3, HealthCheckTimeout = 1000000000,
      IncludePreRelease = False\<rparr>"

definition exampleState :: State where
  "exampleState = NewState exampleConfig ''n1''"

text \<open>A stand-in for the JSON encoding of a member record.\<close>

definition exampleMarshal :: "MemberState \<Rightarrow> string" where
  "exampleMarshal st = ''{CurrentVersion:'' @ CurrentVersion st @ ''}''"

definition exampleUnmarshal :: "string \<Rightarrow> go_error + MemberState" where
  "exampleUnmarshal b =
     (if take 16 b = ''{CurrentVersion:'' \<and> 17 \<le> length b \<and> last b = CHR ''}''
      then Inr \<lparr>CurrentVersion = butlast (drop 16 b)\<rparr>
      else Inl (Opaque ''invalid character''))"

text \<open>
  A world with an empty store and no faults: the node runs \<open>v1\<close>, the release source offers
  \<open>v2\<close>, every command succeeds after half a second, the retry library waits the configured
  delay, and the canary window elapses at the first \<open>select\<close>.
\<close>

definition exampleWorld :: world where
  "exampleWorld =
     \<lparr>store = Map.empty, clock = 0, faults = [],
      vers = (\<lambda>n. Inr ''v1''), nvers = 0,
      procs = (\<lambda>n. \<lparr>p_out = ''ok'', p_ok = True, p_time = 500000000\<rparr>), execs = [],
      assets = (\<lambda>n. (''v2'', ''/src/app.tgz'', None)), requests = [],
      selects = [CanaryReleaseTick],
      delayType = (\<lambda>n d. d),
      json_Marshal = exampleMarshal, json_Unmarshal = exampleUnmarshal,
      logs = []\<rparr>"

text \<open>The example world with \<open>v2\<close> in the avoid set; and the same on a node where the
  version command prints an empty line (nothing is installed).\<close>

definition avoidWorld :: world where
  "avoidWorld =
     exampleWorld\<lparr>store := [avoidReleaseTagKey exampleState \<mapsto> (RSet [''v2''], None)]\<rparr>"


text \<open>
  Notions used to state what \<open>GetRolloutProgress\<close> computes: a member's record is expired
  when its key is not there; a member reports a tag when its record is there, decodes, and
  names that tag as its current version; a member is readable when reading and decoding its
  record raises no error.
\<close>

definition expired :: "world \<Rightarrow> string \<Rightarrow> bool" where
  "expired w m = (lookup w m = None)"

definition reports :: "world \<Rightarrow> string \<Rightarrow> string \<Rightarrow> bool" where
  "reports w tag m =
     (case lookup w m of
        Some (RString b, e) \<Rightarrow>
          (case json_Unmarshal w b of Inr st \<Rightarrow> CurrentVersion st = tag | Inl err \<Rightarrow> False)
      | _ \<Rightarrow> False)"

definition readable :: "world \<Rightarrow> string \<Rightarrow> bool" where
  "readable w m =
     (case lookup w m of
        None \<Rightarrow> True
      | Some (RString b, e) \<Rightarrow> (case json_Unmarshal w b of Inr st \<Rightarrow> True | Inl err \<Rightarrow> False)
      | Some (RSet xs, e) \<Rightarrow> False)"

text \<open>A registry of two members: the record of \<open>n1\<close> is there and names \<open>v2\<close>, the record
  of \<open>n2\<close> has expired.\<close>

definition progressWorld :: world where
  "progressWorld =
     exampleWorld
       \<lparr>store := [membersTagKey exampleState \<mapsto> (RSet [''n1:o/r'', ''n2:o/r''], None),
                  ''n1:o/r'' \<mapsto> (RString (exampleMarshal \<lparr>CurrentVersion = ''v2''\<rparr>), Some 100)]\<rparr>"


definition elapsed :: "duration \<Rightarrow> proc \<Rightarrow> int" where
  "elapsed timeout p =
     (if 0 < sint timeout \<and> sint timeout \<le> int (p_time p) then sint timeout else int (p_time p))"

definition nextRun :: "world \<Rightarrow> nat \<Rightarrow> proc" where
  "nextRun w i = procs w (length (execs w) + i)"





text \<open>An error stops \<open>runServer\<close> when none of the sentinels the ticker cases test
  for with \<open>errors.Is\<close> is in its chain.\<close>

definition halts :: "go_error \<Rightarrow> bool" where
  "halts err =
     (\<not> errors_Is err ErrAssetsNotFound \<and> \<not> errors_Is err ErrAlreadyInstalled \<and>
      \<not> errors_Is err ErrAvoidReleaseTag \<and> \<not> errors_Is err ErrAssetsCannotDownload \<and>
      \<not> errors_Is err ErrRollback \<and> \<not> errors_Is err ErrNoRollback)"

text \<open>A world in which the deploy command succeeds, the three health checks of the burst fail,
  and the rollback command succeeds; the asset of \<open>v1\<close> is \<open>/src/old.tgz\<close>.\<close>

definition rollbackWorld :: world where
  "rollbackWorld =
     exampleWorld
       \<lparr>procs := (\<lambda>n. \<lparr>p_out = ''out'', p_ok = (n = 0 \<or> 4 \<le> n), p_time = 500000000\<rparr>),
        assets := (\<lambda>n. if n < 2 then (''v2'', ''/src/app.tgz'', None)
                        else (''v1'', ''/src/old.tgz'', None))\<rparr>"

text \<open>A world whose latest release has no asset matching the package name pattern; and a
  world in which the stable tag \<open>v2\<close> is also in the avoid set, on a node running \<open>v1\<close>.\<close>

definition noAssetWorld :: world where
  "noAssetWorld = exampleWorld\<lparr>assets := (\<lambda>n. ([], [], Some (Sentinel ErrAssetsNotFound)))\<rparr>"

definition stableAvoidedWorld :: world where
  "stableAvoidedWorld =
     exampleWorld
       \<lparr>store := [stableReleaseTagKey exampleState \<mapsto> (RString ''v2'', None),
                  avoidReleaseTagKey exampleState \<mapsto> (RSet [''v2''], None)]\<rparr>"

section \<open>Properties of the store client and of the locks\<close>

lemma roundTrip_eq:
  "roundTrip w = (faults w \<noteq> [] \<and> hd (faults w), w\<lparr>faults := tl (faults w)\<rparr>)"
  by (cases "faults w") (auto simp: roundTrip_def)

lemma call_eq:
  "call cmd w =
     (if faults w \<noteq> [] \<and> hd (faults w) then (Inl connErr, w\<lparr>faults := tl (faults w)\<rparr>)
      else cmd (w\<lparr>faults := tl (faults w)\<rparr>))"
  by (simp add: call_def roundTrip_eq)

lemma lookup_faults [simp]: "lookup (w\<lparr>faults := fs\<rparr>) k = lookup w k"
  by (simp add: lookup_def split: option.splits prod.splits)

lemma lookup_persistent: "store w k = Some (v, None) \<Longrightarrow> lookup w k = Some (v, None)"
  by (simp add: lookup_def)







lemma lookup_nvers [simp]: "lookup (w\<lparr>nvers := n\<rparr>) k = lookup w k"
  by (simp add: lookup_def split: option.splits prod.splits)


section \<open>The install gate\<close>





section \<open>The stable tag and the rollout tick\<close>

lemma getRelease_eq:
  "getRelease s key w =
     (if faults w \<noteq> [] \<and> hd (faults w) then Inl connErr
      else
        (case lookup w key of
           None \<Rightarrow> Inr []
         | Some (RString v, e) \<Rightarrow> Inr v
         | Some (RSet xs, e) \<Rightarrow> Inl wrongType),
      w\<lparr>faults := tl (faults w)\<rparr>)"
  by (simp add: getRelease_def call_eq cmd_Get_def connErr_def wrongType_def
      split: option.splits rval.splits)

lemma handleRollout_empty:
  assumes "SaveMemberState s w = (None, w1)" and "CurrentStableTag s w1 = (Inr [], w2)"
  shows "handleRollout c s w = (None, w2)"
  using assms by (simp add: handleRollout_def)

lemmas SaveMemberState_unfold =
  SaveMemberState_def GetLastInstalledTag_def roundTrip_eq cmd_SAdd_def cmd_SetEx_def Let_def

lemma SaveMemberState_store:
  "k \<noteq> me s \<Longrightarrow> k \<noteq> membersTagKey s \<Longrightarrow> store (snd (SaveMemberState s w)) k = store w k"
  by (simp add: SaveMemberState_unfold split: sum.splits option.splits prod.splits rval.splits bool.splits)

lemma SaveMemberState_execs [simp]: "execs (snd (SaveMemberState s w)) = execs w"
  by (simp add: SaveMemberState_unfold split: sum.splits option.splits prod.splits rval.splits bool.splits)

text \<open>
  Claim C10. When the stable-tag key is absent and the round trip does not fail,
  \<open>CurrentStableTag\<close> returns the empty string and no error. When \<open>handleRollout\<close> has
  reported the member and reads an empty stable tag, it returns no error there: nothing is
  gated, locked or deployed, and the loop of \<open>runServer\<close> goes on with the next tick.
\<close>

theorem CurrentStableTag_absent:
  "(lookup w (stableReleaseTagKey s) = None \<and> True \<notin> set (take 1 (faults w)) \<longrightarrow>
      CurrentStableTag s w = (Inr [], w\<lparr>faults := tl (faults w)\<rparr>)) \<and>
   (SaveMemberState s w = (None, w1) \<and> CurrentStableTag s w1 = (Inr [], w2) \<longrightarrow>
      handleRollout c s w = (None, w2) \<and>
      rolloutTickerCase once c s w = Continue w2 \<and>
      runServer once c s (rolloutTicker # ts) w = runServer once c s ts w2) \<and>
   (SaveMemberState s w = (None, w1) \<and> lookup w1 (stableReleaseTagKey s) = None \<and>
    True \<notin> set (take 1 (faults w1)) \<longrightarrow>
      handleRollout c s w = (None, w1\<lparr>faults := tl (faults w1)\<rparr>) \<and>
      rolloutTickerCase once c s w = Continue (w1\<lparr>faults := tl (faults w1)\<rparr>))"
proof -
  have a: "CurrentStableTag s w = (Inr [], w\<lparr>faults := tl (faults w)\<rparr>)"
    if "lookup w (stableReleaseTagKey s) = None" "True \<notin> set (take 1 (faults w))" for w
    using that by (cases "faults w") (simp_all add: CurrentStableTag_def getRelease_eq)
  have b: "handleRollout c s w = (None, w2) \<and> rolloutTickerCase once c s w = Continue w2 \<and>
      runServer once c s (rolloutTicker # ts) w = runServer once c s ts w2"
    if "SaveMemberState s w = (None, w1)" "CurrentStableTag s w1 = (Inr [], w2)" for w2
    using handleRollout_empty [OF that] by (simp add: rolloutTickerCase_def)
  show ?thesis
    using a b by blast
qed


theorem CurrentStableTag_absent_witness:
  "lookup exampleWorld (stableReleaseTagKey exampleState) = None \<and>
   True \<notin> set (take 1 (faults exampleWorld)) \<and>
   fst (CurrentStableTag exampleState exampleWorld) = Inr [] \<and>
   fst (SaveMemberState exampleState exampleWorld) = None \<and>
   fst (handleRollout exampleConfig exampleState exampleWorld) = None \<and>
   (case rolloutTickerCase False exampleConfig exampleState exampleWorld of
      Continue w' \<Rightarrow> execs w' = [] \<and> store w' (rolloutKey exampleState) = None
    | Return e w' \<Rightarrow> False)"
proof -
  define w1 where "w1 = snd (SaveMemberState exampleState exampleWorld)"
  have absent: "lookup exampleWorld k = None" for k
    by (simp add: lookup_def exampleWorld_def)
  have nofault: "True \<notin> set (take 1 (faults exampleWorld))"
    by (simp add: exampleWorld_def)
  have keys: "stableReleaseTagKey exampleState \<noteq> me exampleState"
    "stableReleaseTagKey exampleState \<noteq> membersTagKey exampleState"
    "rolloutKey exampleState \<noteq> me exampleState"
    "rolloutKey exampleState \<noteq> membersTagKey exampleState"
    by (simp_all add: exampleState_def NewState_def exampleConfig_def Let_def)
  have saved: "SaveMemberState exampleState exampleWorld = (None, w1)"
    unfolding w1_def
    by (simp add: SaveMemberState_unfold exampleWorld_def exampleState_def NewState_def
        exampleConfig_def lookup_def)
  have w1: "lookup w1 (stableReleaseTagKey exampleState) = None"
    "store w1 (rolloutKey exampleState) = None"
    "True \<notin> set (take 1 (faults w1))" "execs w1 = []"
    unfolding w1_def
    by (simp_all add: SaveMemberState_unfold exampleWorld_def exampleState_def NewState_def
        exampleConfig_def lookup_def)
  note t = CurrentStableTag_absent [where s = exampleState and c = exampleConfig and once = False]
  show ?thesis
    using t [where w = exampleWorld and ?w1.0 = w1, THEN conjunct1]
      t [where w = exampleWorld and ?w1.0 = w1, THEN conjunct2, THEN conjunct2]
      absent nofault saved w1
    by simp
qed

section \<open>Rollout progress\<close>

lemma nofault_same: "faults w = [] \<Longrightarrow> w\<lparr>faults := []\<rparr> = w"
  by (cases w) simp

lemma call_nofault: "faults w = [] \<Longrightarrow> call cmd w = cmd w"
  by (simp add: call_eq nofault_same)

lemma progressLoop_nofault:
  assumes "faults w = []" and "\<forall>m \<in> set ms. readable w m"
  shows "progressLoop tag ms installed deletedMembers w =
     (Inr (installed + length (filter (reports w tag) ms),
           deletedMembers @ filter (expired w) ms), w)"
  using assms
proof (induction ms arbitrary: installed deletedMembers)
  case Nil
  then show ?case by simp
next
  case (Cons m ms)
  then have r: "readable w m" and rs: "\<forall>m \<in> set ms. readable w m"
    by simp_all
  show ?case
  proof (cases "lookup w m")
    case None
    then show ?thesis
      using Cons.IH [OF Cons.prems(1) rs] Cons.prems(1)
      by (simp add: call_nofault cmd_Get_def expired_def reports_def)
  next
    case (Some a)
    then show ?thesis
      using Cons.IH [OF Cons.prems(1) rs] Cons.prems(1) r
      by (cases a; cases "fst a")
        (auto simp add: call_nofault cmd_Get_def expired_def reports_def readable_def
          split: sum.splits)
  qed
qed


lemma lookup_update_value:
  "lookup w k = Some (v, e) \<Longrightarrow> lookup (w\<lparr>store := (store w)(k \<mapsto> (v', e))\<rparr>) k = Some (v', e)"
  by (auto simp add: lookup_def split: option.splits prod.splits if_splits)

lemma lookup_delete: "lookup (w\<lparr>store := (store w)(k := None)\<rparr>) k = None"
  by (simp add: lookup_def)

lemma filter_not_deleted:
  "filter (\<lambda>x. x \<notin> set (filter P xs)) xs = filter (\<lambda>x. \<not> P x) xs"
  by (rule filter_cong) auto

lemma filter_not_deleted':
  "filter (\<lambda>x. x \<in> set xs \<longrightarrow> \<not> P x) xs = filter (\<lambda>x. \<not> P x) xs"
  by (rule filter_cong) auto

lemma GetRolloutProgress_counts:
  assumes "faults w = []"
    and "lookup w (membersTagKey s) = Some (RSet members, e)"
    and "\<forall>m \<in> set members. readable w m"
  shows "fst (GetRolloutProgress s tag w) =
           Inr (length (filter (reports w tag) members), length members) \<and>
         length members =
           length (filter (\<lambda>m. \<not> expired w m) members) + length (filter (expired w) members) \<and>
         lookup (snd (GetRolloutProgress s tag w)) (membersTagKey s) =
           (if filter (expired w) members = [] then Some (RSet members, e)
            else if filter (\<lambda>m. \<not> expired w m) members = [] then None
            else Some (RSet (filter (\<lambda>m. \<not> expired w m) members), e))"
proof -
  have loop: "progressLoop tag members 0 [] w =
     (Inr (length (filter (reports w tag) members), filter (expired w) members), w)"
    using progressLoop_nofault [OF assms(1) assms(3), of tag 0 "[]"] by simp
  have len: "length members =
      length (filter (\<lambda>m. \<not> expired w m) members) + length (filter (expired w) members)"
    using sum_length_filter_compl [of "expired w" members] by simp
  have res: "GetRolloutProgress s tag w =
     (Inr (length (filter (reports w tag) members), length members),
      if filter (expired w) members = [] then w
      else if filter (\<lambda>m. \<not> expired w m) members = []
        then w\<lparr>store := (store w)(membersTagKey s := None)\<rparr>
        else w\<lparr>store := (store w)(membersTagKey s \<mapsto>
                (RSet (filter (\<lambda>m. \<not> expired w m) members), e))\<rparr>)"
    using assms(1,2)
    by (simp add: GetRolloutProgress_def call_nofault cmd_SMembers_def loop Err_def cmd_SRem_def
        filter_not_deleted filter_not_deleted' Let_def)
  show ?thesis
    using len assms(2) by (simp add: res lookup_update_value lookup_delete)
qed


text \<open>
  Claim C1. With a registry of two members, one reporting \<open>v2\<close> and one whose record has
  expired, \<open>GetRolloutProgress\<close> for \<open>v2\<close> returns one installed member out of two in
  total, and leaves a registry of one member. The expired member is pruned and is not counted
  as installed, but it is counted in the total: \<open>all\<close> is the length of the registry as read,
  before pruning (lemma \<open>GetRolloutProgress_counts\<close> states this for every registry).
\<close>

theorem GetRolloutProgress_counts_expired_member:
  "faults progressWorld = [] \<and>
   lookup progressWorld (membersTagKey exampleState) =
     Some (RSet [''n1:o/r'', ''n2:o/r''], None) \<and>
   reports progressWorld ''v2'' ''n1:o/r'' \<and>
   expired progressWorld ''n2:o/r'' \<and>
   fst (GetRolloutProgress exampleState ''v2'' progressWorld) = Inr (1, 2) \<and>
   lookup (snd (GetRolloutProgress exampleState ''v2'' progressWorld))
     (membersTagKey exampleState) = Some (RSet [''n1:o/r''], None)"
proof -
  have key: "membersTagKey exampleState = ''o/r_members_tag''"
    by (simp add: exampleState_def NewState_def exampleConfig_def Let_def)
  have f: "faults progressWorld = []"
    by (simp add: progressWorld_def exampleWorld_def)
  have ms: "lookup progressWorld (membersTagKey exampleState) =
     Some (RSet [''n1:o/r'', ''n2:o/r''], None)"
    by (simp add: key lookup_def progressWorld_def)
  have n1: "lookup progressWorld ''n1:o/r'' =
      Some (RString (exampleMarshal \<lparr>CurrentVersion = ''v2''\<rparr>), Some 100)"
    by (simp add: key lookup_def progressWorld_def exampleWorld_def)
  have n2: "lookup progressWorld ''n2:o/r'' = None"
    by (simp add: key lookup_def progressWorld_def)
  have dec: "json_Unmarshal progressWorld (exampleMarshal \<lparr>CurrentVersion = ''v2''\<rparr>) =
      Inr \<lparr>CurrentVersion = ''v2''\<rparr>"
    by (simp add: progressWorld_def exampleWorld_def exampleUnmarshal_def exampleMarshal_def)
  have r: "\<forall>m \<in> set [''n1:o/r'', ''n2:o/r'']. readable progressWorld m"
    by (simp add: readable_def n1 n2 dec)
  have e: "expired progressWorld ''n2:o/r''" "\<not> expired progressWorld ''n1:o/r''"
    by (simp_all add: expired_def n1 n2)
  have i: "reports progressWorld ''v2'' ''n1:o/r''" "\<not> reports progressWorld ''v2'' ''n2:o/r''"
    by (simp_all add: reports_def n1 n2 dec)
  show ?thesis
    using GetRolloutProgress_counts [OF f ms r, of "''v2''"] f ms e i by simp
qed

section \<open>The health check\<close>


lemma executeCommand_execs [simp]:
  "execs (snd (executeCommand command tag file timeout w)) = execs w @ [(command, tag, file)]"
  by (simp add: executeCommand_def Let_def slog_def)

lemma executeCommand_clock [simp]:
  "clock (snd (executeCommand command tag file timeout w)) =
     clock w + elapsed timeout (nextRun w 0)"
  by (simp add: executeCommand_def Let_def slog_def elapsed_def nextRun_def)

lemma executeCommand_procs [simp]:
  "procs (snd (executeCommand command tag file timeout w)) = procs w"
  by (simp add: executeCommand_def Let_def slog_def)

lemma executeCommand_delayType [simp]:
  "delayType (snd (executeCommand command tag file timeout w)) = delayType w"
  by (simp add: executeCommand_def Let_def slog_def)

lemma executeCommand_store [simp]:
  "store (snd (executeCommand command tag file timeout w)) = store w"
  by (simp add: executeCommand_def Let_def slog_def)

lemma executeCommand_faults [simp]:
  "faults (snd (executeCommand command tag file timeout w)) = faults w"
  by (simp add: executeCommand_def Let_def slog_def)

lemma executeCommand_selects [simp]:
  "selects (snd (executeCommand command tag file timeout w)) = selects w"
  by (simp add: executeCommand_def Let_def slog_def)

lemma nextRun_after [simp]:
  "nextRun (snd (executeCommand command tag file timeout w)) i = nextRun w (Suc i)"
  by (simp add: nextRun_def)

lemma nextRun_clock [simp]: "nextRun (w\<lparr>clock := t\<rparr>) i = nextRun w i"
  by (simp add: nextRun_def)


lemma elapsed_ge: "0 \<le> elapsed timeout p"
  by (simp add: elapsed_def)










lemma f_selects [simp]: "selects (snd (f c tag file w)) = selects w"
proof -
  have "selects (snd (retryLoop c tag file deadline N k ret errorLog w)) = selects w"
    for deadline N k ret errorLog w
    by (induction k arbitrary: ret errorLog w)
      (simp_all add: case_prod_beta Let_def split: option.splits)
  then show ?thesis
    by (simp add: f_def Let_def)
qed




section \<open>The watch phase of the health check\<close>

lemma retryLoop_frame:
  "procs (snd (retryLoop c tag file deadline N k ret errorLog w)) = procs w \<and>
   delayType (snd (retryLoop c tag file deadline N k ret errorLog w)) = delayType w \<and>
   store (snd (retryLoop c tag file deadline N k ret errorLog w)) = store w \<and>
   faults (snd (retryLoop c tag file deadline N k ret errorLog w)) = faults w"
  by (induction k arbitrary: ret errorLog w)
    (simp_all add: case_prod_beta Let_def split: option.splits)

lemma f_procs [simp]: "procs (snd (f c tag file w)) = procs w"
  by (simp add: f_def Let_def retryLoop_frame)

lemma f_delayType [simp]: "delayType (snd (f c tag file w)) = delayType w"
  by (simp add: f_def Let_def retryLoop_frame)

lemma f_store [simp]: "store (snd (f c tag file w)) = store w"
  by (simp add: f_def Let_def retryLoop_frame)

lemma f_faults [simp]: "faults (snd (f c tag file w)) = faults w"
  by (simp add: f_def Let_def retryLoop_frame)










section \<open>The canary cycle\<close>

lemma NewState_keys:
  assumes "s = NewState c hostname"
  shows "stableReleaseTagKey s \<noteq> me s" "stableReleaseTagKey s \<noteq> membersTagKey s"
    "stableReleaseTagKey s \<noteq> canaryReleaseTagKey s"
    "canaryReleaseTagKey s \<noteq> me s" "canaryReleaseTagKey s \<noteq> membersTagKey s"
    "avoidReleaseTagKey s \<noteq> stableReleaseTagKey s"
proof -
  let ?colons = "\<lambda>x. length (filter (\<lambda>ch. ch = CHR '':'') x)"
  have ne: "p @ sfx \<noteq> h @ CHR '':'' # p" if "?colons sfx = 0" for p h sfx :: string
  proof
    assume "p @ sfx = h @ CHR '':'' # p"
    then have "?colons (p @ sfx) = ?colons (h @ CHR '':'' # p)"
      by (rule arg_cong)
    then show False
      using that by simp
  qed
  show "stableReleaseTagKey s \<noteq> me s" "canaryReleaseTagKey s \<noteq> me s"
    by (simp_all add: assms NewState_def Let_def ne)
  show "stableReleaseTagKey s \<noteq> membersTagKey s"
    "stableReleaseTagKey s \<noteq> canaryReleaseTagKey s"
    "canaryReleaseTagKey s \<noteq> membersTagKey s"
    "avoidReleaseTagKey s \<noteq> stableReleaseTagKey s"
    by (simp_all add: assms NewState_def Let_def)
qed

lemma SaveStableReleaseTag_eq:
  "SaveStableReleaseTag s tag w =
     (if faults w \<noteq> [] \<and> hd (faults w) then (Some connErr, w\<lparr>faults := tl (faults w)\<rparr>)
      else (None, w\<lparr>faults := tl (faults w),
                    store := (store w)(stableReleaseTagKey s \<mapsto> (RString tag, None))\<rparr>))"
  by (simp add: SaveStableReleaseTag_def saveRelease_def call_eq cmd_Set_def Err_def)

lemma UnlockCanaryRelease_eq:
  "UnlockCanaryRelease s w =
     (if faults w \<noteq> [] \<and> hd (faults w) then (Some connErr, w\<lparr>faults := tl (faults w)\<rparr>)
      else (None, w\<lparr>faults := tl (faults w),
                    store := (store w)(canaryReleaseTagKey s := None)\<rparr>))"
  by (simp add: UnlockCanaryRelease_def call_eq cmd_Del_def Err_def split: option.splits)

lemma slog_fields [simp]:
  "store (slog l m w) = store w" "faults (slog l m w) = faults w" "execs (slog l m w) = execs w"
  "requests (slog l m w) = requests w" "clock (slog l m w) = clock w"
  "procs (slog l m w) = procs w" "vers (slog l m w) = vers w" "nvers (slog l m w) = nvers w"
  "assets (slog l m w) = assets w" "selects (slog l m w) = selects w"
  "delayType (slog l m w) = delayType w" "logs (slog l m w) = logs w @ [(l, m)]"
  by (simp_all add: slog_def)

lemma lookup_slog [simp]: "lookup (slog l m w) k = lookup w k"
  by (simp add: lookup_def split: option.splits prod.splits)

lemma healthCheckSucceeded_None:
  assumes "healthCheckSucceeded s tag w = (None, w')"
    and "stableReleaseTagKey s \<noteq> me s" "stableReleaseTagKey s \<noteq> membersTagKey s"
      "stableReleaseTagKey s \<noteq> canaryReleaseTagKey s"
  shows "store w' (stableReleaseTagKey s) = Some (RString tag, None) \<and>
         store w' (canaryReleaseTagKey s) = None \<and>
         last (logs w') = (LevelInfo, ''canary release success'')"
proof -
  let ?w0 = "slog LevelInfo ''health check success'' w"
  let ?w1 = "snd (SaveStableReleaseTag s tag ?w0)"
  let ?w2 = "snd (SaveMemberState s ?w1)"
  let ?w2' = "case fst (SaveMemberState s ?w1) of
      Some err \<Rightarrow> slog LevelError (''failed to save state: '' @ errorString err) ?w2
    | None \<Rightarrow> ?w2"
  let ?w3 = "snd (UnlockCanaryRelease s ?w2')"
  have a: "fst (SaveStableReleaseTag s tag ?w0) = None"
    and b: "fst (UnlockCanaryRelease s ?w2') = None"
    and c: "w' = slog LevelInfo ''canary release success'' ?w3"
    using assms(1)
    by (auto simp add: healthCheckSucceeded_def case_prod_beta split: option.splits)
  have s1: "store ?w1 (stableReleaseTagKey s) = Some (RString tag, None)"
    using a by (auto simp add: SaveStableReleaseTag_eq split: if_splits)
  have s2: "store ?w2 (stableReleaseTagKey s) = Some (RString tag, None)"
    using s1 assms(2,3) by (simp add: SaveMemberState_store)
  have s2': "store ?w2' (stableReleaseTagKey s) = Some (RString tag, None)"
    using s2 by (simp split: option.splits)
  have s3: "store ?w3 = (store ?w2')(canaryReleaseTagKey s := None)"
    using b by (auto simp add: UnlockCanaryRelease_eq split: if_splits)
  show ?thesis
    using s2' s3 assms(4) by (simp add: c)
qed

lemma handleRollback_Some: "\<exists>y. fst (handleRollback t c s w) = Some y"
  by (simp add: handleRollback_def case_prod_beta split: sum.splits)

lemma healthCheckFailed_Some: "fst (healthCheckFailed c s tag lastInstalledTag w) \<noteq> None"
  by (simp add: healthCheckFailed_def case_prod_beta handleRollback_Some
      split: option.splits sum.splits)

lemma executeCommand_more [simp]:
  "requests (snd (executeCommand command tag file timeout w)) = requests w"
  "assets (snd (executeCommand command tag file timeout w)) = assets w"
  "vers (snd (executeCommand command tag file timeout w)) = vers w"
  "nvers (snd (executeCommand command tag file timeout w)) = nvers w"
  by (simp_all add: executeCommand_def Let_def slog_def)

lemma deploy_Inr:
  assumes "deploy cmd targetTag s w = (Inr (tag, file), w')"
  shows "execs w' = execs w @ [(cmd, tag, file)] \<and> requests w' = requests w @ [targetTag] \<and>
         assets w (length (requests w)) = (tag, file, None) \<and> store w' = store w"
  using assms
  by (auto simp add: deploy_def DownloadReleaseAsset_def GetLastInstalledTag_def Let_def
      case_prod_beta prod_eq_iff
      split: option.splits sum.splits)


lemma deploy_Inr':
  "fst (deploy cmd targetTag s w) = Inr (tag, file) \<Longrightarrow>
     execs (snd (deploy cmd targetTag s w)) = execs w @ [(cmd, tag, file)] \<and>
     requests (snd (deploy cmd targetTag s w)) = requests w @ [targetTag] \<and>
     assets w (length (requests w)) = (tag, file, None) \<and>
     store (snd (deploy cmd targetTag s w)) = store w"
  using deploy_Inr [of cmd targetTag s w tag "file" "snd (deploy cmd targetTag s w)"]
  by (simp add: prod_eq_iff)

lemma canaryDeploy_Inr:
  assumes "canaryDeploy c s w = (Inr (lastInstalledTag, tag, file), w1)"
  shows "execs w1 \<noteq> [] \<and> last (execs w1) = (DeployCommand c, tag, file) \<and>
         fst (GetLastInstalledTag s (snd (SaveMemberState s w))) = Inr lastInstalledTag"
  using assms unfolding canaryDeploy_def
  by (auto simp add: case_prod_beta split: sum.splits option.splits if_splits
      dest!: deploy_Inr')


lemmas eval_defs =
  SaveMemberState_def GetLastInstalledTag_def roundTrip_def call_def cmd_SAdd_def cmd_SetEx_def
  cmd_SetNX_def cmd_Expire_def cmd_Get_def cmd_Set_def cmd_Del_def cmd_SMembers_def cmd_SRem_def
  Err_def lookup_def getLock_def TryCanaryReleaseLock_def TryRolloutLock_def
  CurrentStableTag_def getRelease_def getReleases_def CanInstallTag_def
  DownloadReleaseAsset_def LatestTag_def deploy_def executeCommand_def fiveMinutes_def slog_def
  SaveStableReleaseTag_def saveRelease_def SaveAvoidReleaseTag_def saveReleases_def
  UnlockCanaryRelease_def RollbackTag_def handleRollback_def
  TrimSpace_def TrimRight_def isSpace_def
  exampleWorld_def exampleState_def NewState_def exampleConfig_def exampleMarshal_def
  Let_def

lemma retryLoop_three:
  "retryLoop c tag file deadline N 3 ret errorLog w =
     retryLoop c tag file deadline N (Suc (Suc (Suc 0))) ret errorLog w"
  by (simp add: numeral_3_eq_3)

lemmas cycle_defs =
  handleCanaryRelease_def canaryDeploy_def healthCheckSucceeded_def healthCheckFailed_def
  runHealthCheck_def f_def burstTimeout_def retryLoop_three

text \<open>
  Claim C6. When a canary cycle has deployed a tag (\<open>canaryDeploy\<close> returns it) and
  \<open>handleCanaryRelease\<close> returns nil, the deploy command was run with that tag, the health
  check returned no error, the stable-tag key holds that tag without expiry, the canary lock
  key has been deleted from the store, and the last record logged is the success of the canary
  release. The state is the one \<open>NewState\<close> builds, whose keys differ from each other.
\<close>

theorem canary_success:
  "canaryDeploy c (NewState c hostname) w = (Inr (lastInstalledTag, tag, asset), w1) \<and>
   handleCanaryRelease c (NewState c hostname) w = Some (None, w') \<longrightarrow>
     last (execs w1) = (DeployCommand c, tag, asset) \<and>
     map_option (\<lambda>r. snd (fst r))
       (runHealthCheck c tag asset
          (slog LevelInfo ''deploy command success and start health check'' w1)) = Some None \<and>
     store w' (stableReleaseTagKey (NewState c hostname)) = Some (RString tag, None) \<and>
     lookup w' (stableReleaseTagKey (NewState c hostname)) = Some (RString tag, None) \<and>
     store w' (canaryReleaseTagKey (NewState c hostname)) = None \<and>
     lookup w' (canaryReleaseTagKey (NewState c hostname)) = None \<and>
     last (logs w') = (LevelInfo, ''canary release success'')"
proof (intro impI, elim conjE)
  let ?s = "NewState c hostname"
  let ?w1 = "slog LevelInfo ''deploy command success and start health check'' w1"
  assume d: "canaryDeploy c ?s w = (Inr (lastInstalledTag, tag, asset), w1)"
    and h: "handleCanaryRelease c ?s w = Some (None, w')"
  have run: "(case runHealthCheck c tag asset ?w1 of
             None \<Rightarrow> None
           | Some ((out, Some err), w2) \<Rightarrow> Some (healthCheckFailed c ?s tag lastInstalledTag w2)
           | Some ((out, None), w2) \<Rightarrow> Some (healthCheckSucceeded ?s tag w2)) = Some (None, w')"
    using h by (simp add: handleCanaryRelease_def d)
  then obtain out r w2 where r: "runHealthCheck c tag asset ?w1 = Some ((out, r), w2)"
    by (cases "runHealthCheck c tag asset ?w1") auto
  have "r = None"
  proof (rule ccontr)
    assume "r \<noteq> None"
    then obtain err where "r = Some err" by auto
    then have "healthCheckFailed c ?s tag lastInstalledTag w2 = (None, w')"
      using run r by simp
    then show False
      using healthCheckFailed_Some [of c ?s tag lastInstalledTag w2] by simp
  qed
  then have ok: "healthCheckSucceeded ?s tag w2 = (None, w')"
    using run r by simp
  note keys = NewState_keys [OF refl, of c hostname]
  from healthCheckSucceeded_None [OF ok keys(1,2,3)]
  have st: "store w' (stableReleaseTagKey ?s) = Some (RString tag, None)"
    "store w' (canaryReleaseTagKey ?s) = None"
    "last (logs w') = (LevelInfo, ''canary release success'')"
    by simp_all
  have lk: "lookup w' (stableReleaseTagKey ?s) = Some (RString tag, None)"
    "lookup w' (canaryReleaseTagKey ?s) = None"
    using st by (simp_all add: lookup_def)
  show "last (execs w1) = (DeployCommand c, tag, asset) \<and>
     map_option (\<lambda>r. snd (fst r)) (runHealthCheck c tag asset ?w1) = Some None \<and>
     store w' (stableReleaseTagKey ?s) = Some (RString tag, None) \<and>
     lookup w' (stableReleaseTagKey ?s) = Some (RString tag, None) \<and>
     store w' (canaryReleaseTagKey ?s) = None \<and>
     lookup w' (canaryReleaseTagKey ?s) = None \<and>
     last (logs w') = (LevelInfo, ''canary release success'')"
    using canaryDeploy_Inr [OF d] r \<open>r = None\<close> st lk by simp
qed

theorem canary_success_witness:
  "fst (canaryDeploy exampleConfig (NewState exampleConfig ''n1'') exampleWorld) =
     Inr (''v1'', ''v2'', ''/src/app.tgz'') \<and>
   map_option fst (handleCanaryRelease exampleConfig (NewState exampleConfig ''n1'') exampleWorld) =
     Some None \<and>
   map_option (\<lambda>r. store (snd r) (stableReleaseTagKey (NewState exampleConfig ''n1'')))
     (handleCanaryRelease exampleConfig (NewState exampleConfig ''n1'') exampleWorld) =
     Some (Some (RString ''v2'', None)) \<and>
   map_option (\<lambda>r. store (snd r) (canaryReleaseTagKey (NewState exampleConfig ''n1'')))
     (handleCanaryRelease exampleConfig (NewState exampleConfig ''n1'') exampleWorld) =
     Some None"
proof -
  let ?s = "NewState exampleConfig ''n1''"
  have s: "?s = exampleState"
    by (simp add: exampleState_def)
  have d: "fst (canaryDeploy exampleConfig ?s exampleWorld) = Inr (''v1'', ''v2'', ''/src/app.tgz'')"
    unfolding s by (simp add: canaryDeploy_def eval_defs)
  have "map_option fst (handleCanaryRelease exampleConfig ?s exampleWorld) = Some None"
    unfolding s by (simp add: cycle_defs eval_defs)
  then obtain w' where h: "handleCanaryRelease exampleConfig ?s exampleWorld = Some (None, w')"
    by auto
  have d': "canaryDeploy exampleConfig ?s exampleWorld =
      (Inr (''v1'', ''v2'', ''/src/app.tgz''), snd (canaryDeploy exampleConfig ?s exampleWorld))"
    using d by (simp add: prod_eq_iff)
  from canary_success [where c = exampleConfig and hostname = "''n1''" and w = exampleWorld
      and w' = w', rule_format, OF conjI [OF d' h]]
  show ?thesis
    using d h by simp
qed

section \<open>Rollback after a failed health check\<close>

lemma SaveAvoidReleaseTag_eq:
  "SaveAvoidReleaseTag s tag w =
     (if faults w \<noteq> [] \<and> hd (faults w) then (Some connErr, w\<lparr>faults := tl (faults w)\<rparr>)
      else
        (case lookup w (avoidReleaseTagKey s) of
           None \<Rightarrow>
             (None, w\<lparr>faults := tl (faults w),
                       store := (store w)(avoidReleaseTagKey s \<mapsto> (RSet [tag], None))\<rparr>)
         | Some (RString v, e) \<Rightarrow> (Some wrongType, w\<lparr>faults := tl (faults w)\<rparr>)
         | Some (RSet xs, e) \<Rightarrow>
             (None, w\<lparr>faults := tl (faults w),
                       store := (store w)(avoidReleaseTagKey s \<mapsto> (RSet (sadd xs [tag]), e))\<rparr>)))"
  by (simp add: SaveAvoidReleaseTag_def saveReleases_def call_eq cmd_SAdd_def Err_def
      split: option.splits rval.splits)

lemma SaveAvoidReleaseTag_adds:
  assumes "True \<notin> set (take 1 (faults w))"
    and "\<forall>v e. lookup w (avoidReleaseTagKey s) \<noteq> Some (RString v, e)"
  shows "fst (SaveAvoidReleaseTag s tag w) = None \<and>
    (\<exists>tags e. lookup (snd (SaveAvoidReleaseTag s tag w)) (avoidReleaseTagKey s) =
       Some (RSet tags, e) \<and> tag \<in> set tags)"
proof -
  have nf: "\<not> (faults w \<noteq> [] \<and> hd (faults w))"
    using assms(1) by (cases "faults w") auto
  show ?thesis
  proof (cases "lookup w (avoidReleaseTagKey s)")
    case None
    then show ?thesis
      using nf by (simp add: SaveAvoidReleaseTag_eq lookup_persistent)
  next
    case (Some a)
    obtain v e where a: "a = (v, e)" by (cases a)
    show ?thesis
    proof (cases v)
      case (RString x)
      then show ?thesis using assms(2) Some a by simp
    next
      case (RSet xs)
      have m: "tag \<in> set (sadd xs [tag])"
        by simp
      have "lookup (w\<lparr>store := (store w)(avoidReleaseTagKey s \<mapsto> (RSet (sadd xs [tag]), e))\<rparr>)
          (avoidReleaseTagKey s) = Some (RSet (sadd xs [tag]), e)"
        using Some a RSet by (intro lookup_update_value) simp
      then have l: "lookup (w\<lparr>faults := tl (faults w),
          store := (store w)(avoidReleaseTagKey s \<mapsto> (RSet (sadd xs [tag]), e))\<rparr>)
          (avoidReleaseTagKey s) = Some (RSet (sadd xs [tag]), e)"
        by (simp add: lookup_def)
      show ?thesis
        using nf Some a RSet l m by (auto simp add: SaveAvoidReleaseTag_eq simp del: sadd.simps)
    qed
  qed
qed

lemma RollbackTag_facts:
  "(lastInstalledTag \<noteq> [] \<longrightarrow> RollbackTag s lastInstalledTag w = (Inr lastInstalledTag, w)) \<and>
   (fst (CurrentStableTag s w) = Inr stableTag \<and> stableTag \<noteq> [] \<longrightarrow>
      fst (RollbackTag s [] w) = Inr stableTag) \<and>
   (fst (CurrentStableTag s w) = Inr [] \<longrightarrow>
      fst (RollbackTag s [] w) = Inl (Opaque ''can't decided rollback tag'')) \<and>
   (fst (CurrentStableTag s w) = Inl e \<longrightarrow> fst (RollbackTag s [] w) = Inl e)"
  by (simp add: RollbackTag_def case_prod_beta split: sum.splits)

lemma deploy_Inl: "fst (deploy cmd targetTag s w) = Inl e \<Longrightarrow> \<exists>m. e = Opaque m"
  by (auto simp add: deploy_def case_prod_beta split: option.splits sum.splits)

lemma handleRollback_facts:
  "(RollbackCommand c = [] \<longrightarrow> handleRollback target c s w = (Some (Sentinel ErrNoRollback), w)) \<and>
   (RollbackCommand c \<noteq> [] \<and>
    fst (deploy (RollbackCommand c) target s (slog LevelInfo ''start rollback'' w)) = Inr (t, a) \<longrightarrow>
      fst (handleRollback target c s w) = Some (Sentinel ErrRollback) \<and>
      execs (snd (handleRollback target c s w)) = execs w @ [(RollbackCommand c, t, a)] \<and>
      requests (snd (handleRollback target c s w)) = requests w @ [target]) \<and>
   (RollbackCommand c \<noteq> [] \<and>
    fst (deploy (RollbackCommand c) target s (slog LevelInfo ''start rollback'' w)) = Inl e \<longrightarrow>
      fst (handleRollback target c s w) = Some (Wrapped e ''rollback command failed'') \<and>
      halts (Wrapped e ''rollback command failed''))"
proof -
  have a: "fst (handleRollback target c s w) = Some (Sentinel ErrRollback) \<and>
      execs (snd (handleRollback target c s w)) = execs w @ [(RollbackCommand c, t, a)] \<and>
      requests (snd (handleRollback target c s w)) = requests w @ [target]"
    if "RollbackCommand c \<noteq> []"
      "fst (deploy (RollbackCommand c) target s (slog LevelInfo ''start rollback'' w)) = Inr (t, a)"
    using that deploy_Inr' [OF that(2)]
    by (simp add: handleRollback_def case_prod_beta)
  have b: "fst (handleRollback target c s w) = Some (Wrapped e ''rollback command failed'') \<and>
      halts (Wrapped e ''rollback command failed'')"
    if "RollbackCommand c \<noteq> []"
      "fst (deploy (RollbackCommand c) target s (slog LevelInfo ''start rollback'' w)) = Inl e"
    using that deploy_Inl [OF that(2)]
    by (auto simp add: handleRollback_def case_prod_beta halts_def)
  show ?thesis
    using a b by (simp add: handleRollback_def)
qed

lemma gitTickerCase_error:
  assumes "handleCanaryRelease c s w = Some (Some e, w')"
  shows "(halts e \<longrightarrow> gitTickerCase once c s w = Some (Return (Some e) w')) \<and>
   (e = Sentinel ErrRollback \<longrightarrow>
      gitTickerCase once c s w =
        Some (if once then Return None (slog LevelWarn ''rollback success'' w')
              else Continue (slog LevelWarn ''rollback success'' w'))) \<and>
   (e = Sentinel ErrNoRollback \<longrightarrow>
      gitTickerCase once c s w =
        Some (if once then Return None (slog LevelInfo ''no rollback because no rollback command'' w')
              else Continue (slog LevelInfo ''no rollback because no rollback command'' w')))"
  using assms by (simp add: gitTickerCase_def halts_def)


lemma healthCheckFailed_facts:
  "(fst (SaveAvoidReleaseTag s tag (slog LevelError ''health check command failed'' w)) = Some e \<longrightarrow>
      fst (healthCheckFailed c s tag lastInstalledTag w) =
        Some (Opaque (''can't save avoid tag:'' @ errorString e))) \<and>
   (SaveAvoidReleaseTag s tag (slog LevelError ''health check command failed'' w) = (None, wa) \<longrightarrow>
      healthCheckFailed c s tag lastInstalledTag w =
        (case RollbackTag s lastInstalledTag wa of
           (Inl e, wb) \<Rightarrow> (Some e, wb)
         | (Inr target, wb) \<Rightarrow> handleRollback target c s wb))"
  by (auto simp add: healthCheckFailed_def case_prod_beta split: option.splits sum.splits)

lemma cycle_failed:
  "canaryDeploy c s w = (Inr (lastInstalledTag, tag, asset), w1) \<and>
   runHealthCheck c tag asset
     (slog LevelInfo ''deploy command success and start health check'' w1) =
     Some ((out, Some err), w2) \<longrightarrow>
     handleCanaryRelease c s w = Some (healthCheckFailed c s tag lastInstalledTag w2) \<and>
     fst (GetLastInstalledTag s (snd (SaveMemberState s w))) = Inr lastInstalledTag"
proof (intro impI, elim conjE)
  assume d: "canaryDeploy c s w = (Inr (lastInstalledTag, tag, asset), w1)"
    and r: "runHealthCheck c tag asset
     (slog LevelInfo ''deploy command success and start health check'' w1) =
     Some ((out, Some err), w2)"
  show "handleCanaryRelease c s w = Some (healthCheckFailed c s tag lastInstalledTag w2) \<and>
     fst (GetLastInstalledTag s (snd (SaveMemberState s w))) = Inr lastInstalledTag"
    using canaryDeploy_Inr [OF d] by (simp add: handleCanaryRelease_def d r)
qed

lemma SaveAvoidReleaseTag_adds':
  "True \<notin> set (take 1 (faults w)) \<and>
   (\<forall>v e. lookup w (avoidReleaseTagKey s) \<noteq> Some (RString v, e)) \<longrightarrow>
     fst (SaveAvoidReleaseTag s tag w) = None \<and>
     (\<exists>tags e. lookup (snd (SaveAvoidReleaseTag s tag w)) (avoidReleaseTagKey s) =
        Some (RSet tags, e) \<and> tag \<in> set tags)"
  using SaveAvoidReleaseTag_adds [of w s tag] by blast

lemma gitTickerCase_error':
  "handleCanaryRelease c s w = Some (Some e, w') \<longrightarrow>
   (halts e \<longrightarrow> gitTickerCase once c s w = Some (Return (Some e) w')) \<and>
   (e = Sentinel ErrRollback \<longrightarrow>
      gitTickerCase once c s w =
        Some (if once then Return None (slog LevelWarn ''rollback success'' w')
              else Continue (slog LevelWarn ''rollback success'' w'))) \<and>
   (e = Sentinel ErrNoRollback \<longrightarrow>
      gitTickerCase once c s w =
        Some (if once then Return None (slog LevelInfo ''no rollback because no rollback command'' w')
              else Continue (slog LevelInfo ''no rollback because no rollback command'' w')))"
  using gitTickerCase_error [of c s w e w' once] by blast

lemma halts_Opaque: "halts (Opaque m)"
  by (simp add: halts_def)

text \<open>
  Claim C7. When the health check of a canary cycle returns an error, \<open>handleCanaryRelease\<close>
  continues as \<open>healthCheckFailed\<close> with the version read before the deploy. The tag is
  added to the avoid set (when the store answers and the key holds a set or nothing); if that fails
  the cycle returns the error \<open>can't save avoid tag\<close>. The rollback target is the version read
  before the deploy, or the stable tag when that version is empty; when both are empty the cycle
  returns the error \<open>can't decided rollback tag\<close>. With an empty rollback command the cycle
  returns \<open>ErrNoRollback\<close> and runs nothing; otherwise it runs the rollback command with the
  target, returns \<open>ErrRollback\<close> when the command succeeds, and an error that stops the server
  when it fails. The server continues after \<open>ErrRollback\<close> and \<open>ErrNoRollback\<close> and returns
  every error that \<open>halts\<close>.
\<close>

theorem rollback_outcomes:
  "(canaryDeploy c s w = (Inr (lastInstalledTag, tag, asset), w1) \<and>
    runHealthCheck c tag asset
      (slog LevelInfo ''deploy command success and start health check'' w1) =
      Some ((out, Some err), w2) \<longrightarrow>
      handleCanaryRelease c s w = Some (healthCheckFailed c s tag lastInstalledTag w2) \<and>
      fst (GetLastInstalledTag s (snd (SaveMemberState s w))) = Inr lastInstalledTag) \<and>
   (True \<notin> set (take 1 (faults w)) \<and>
    (\<forall>v e. lookup w (avoidReleaseTagKey s) \<noteq> Some (RString v, e)) \<longrightarrow>
      fst (SaveAvoidReleaseTag s tag w) = None \<and>
      (\<exists>tags e. lookup (snd (SaveAvoidReleaseTag s tag w)) (avoidReleaseTagKey s) =
         Some (RSet tags, e) \<and> tag \<in> set tags)) \<and>
   ((fst (SaveAvoidReleaseTag s tag (slog LevelError ''health check command failed'' w)) = Some e \<longrightarrow>
       fst (healthCheckFailed c s tag lastInstalledTag w) =
         Some (Opaque (''can't save avoid tag:'' @ errorString e))) \<and>
    (SaveAvoidReleaseTag s tag (slog LevelError ''health check command failed'' w) = (None, wa) \<longrightarrow>
       healthCheckFailed c s tag lastInstalledTag w =
         (case RollbackTag s lastInstalledTag wa of
            (Inl e, wb) \<Rightarrow> (Some e, wb)
          | (Inr target, wb) \<Rightarrow> handleRollback target c s wb))) \<and>
   ((lastInstalledTag \<noteq> [] \<longrightarrow> RollbackTag s lastInstalledTag w = (Inr lastInstalledTag, w)) \<and>
    (fst (CurrentStableTag s w) = Inr stableTag \<and> stableTag \<noteq> [] \<longrightarrow>
       fst (RollbackTag s [] w) = Inr stableTag) \<and>
    (fst (CurrentStableTag s w) = Inr [] \<longrightarrow>
       fst (RollbackTag s [] w) = Inl (Opaque ''can't decided rollback tag'')) \<and>
    (fst (CurrentStableTag s w) = Inl e \<longrightarrow> fst (RollbackTag s [] w) = Inl e)) \<and>
   ((RollbackCommand c = [] \<longrightarrow>
       handleRollback target c s w = (Some (Sentinel ErrNoRollback), w)) \<and>
    (RollbackCommand c \<noteq> [] \<and>
     fst (deploy (RollbackCommand c) target s (slog LevelInfo ''start rollback'' w)) = Inr (t, a) \<longrightarrow>
       fst (handleRollback target c s w) = Some (Sentinel ErrRollback) \<and>
       execs (snd (handleRollback target c s w)) = execs w @ [(RollbackCommand c, t, a)] \<and>
       requests (snd (handleRollback target c s w)) = requests w @ [target]) \<and>
    (RollbackCommand c \<noteq> [] \<and>
     fst (deploy (RollbackCommand c) target s (slog LevelInfo ''start rollback'' w)) = Inl e \<longrightarrow>
       fst (handleRollback target c s w) = Some (Wrapped e ''rollback command failed'') \<and>
       halts (Wrapped e ''rollback command failed''))) \<and>
   halts (Opaque m) \<and>
   (handleCanaryRelease c s w = Some (Some e, w') \<longrightarrow>
    (halts e \<longrightarrow> gitTickerCase once c s w = Some (Return (Some e) w')) \<and>
    (e = Sentinel ErrRollback \<longrightarrow>
       gitTickerCase once c s w =
         Some (if once then Return None (slog LevelWarn ''rollback success'' w')
               else Continue (slog LevelWarn ''rollback success'' w'))) \<and>
    (e = Sentinel ErrNoRollback \<longrightarrow>
       gitTickerCase once c s w =
         Some (if once then Return None (slog LevelInfo ''no rollback because no rollback command'' w')
               else Continue (slog LevelInfo ''no rollback because no rollback command'' w'))))"
  by (rule conjI [OF cycle_failed conjI [OF SaveAvoidReleaseTag_adds'
        conjI [OF healthCheckFailed_facts conjI [OF RollbackTag_facts
        conjI [OF handleRollback_facts conjI [OF halts_Opaque gitTickerCase_error']]]]]])


theorem rollback_outcomes_witness:
  "fst (canaryDeploy exampleConfig exampleState rollbackWorld) =
     Inr (''v1'', ''v2'', ''/src/app.tgz'') \<and>
   map_option fst (handleCanaryRelease exampleConfig exampleState rollbackWorld) =
     Some (Some (Sentinel ErrRollback)) \<and>
   map_option (\<lambda>r. requests (snd r))
     (handleCanaryRelease exampleConfig exampleState rollbackWorld) =
     Some [''latest'', ''v2'', ''v1''] \<and>
   map_option (\<lambda>r. last (execs (snd r)))
     (handleCanaryRelease exampleConfig exampleState rollbackWorld) =
     Some (RollbackCommand exampleConfig, ''v1'', ''/src/old.tgz'') \<and>
   map_option (\<lambda>r. lookup (snd r) (avoidReleaseTagKey exampleState))
     (handleCanaryRelease exampleConfig exampleState rollbackWorld) =
     Some (Some (RSet [''v2''], None)) \<and>
   (\<exists>w'. gitTickerCase False exampleConfig exampleState rollbackWorld = Some (Continue w') \<and>
      last (logs w') = (LevelWarn, ''rollback success'')) \<and>
   fst (SaveAvoidReleaseTag exampleState ''v2'' rollbackWorld) = None"
proof -
  have d: "fst (canaryDeploy exampleConfig exampleState rollbackWorld) =
      Inr (''v1'', ''v2'', ''/src/app.tgz'')"
    by (simp add: canaryDeploy_def eval_defs rollbackWorld_def)
  have h: "map_option fst (handleCanaryRelease exampleConfig exampleState rollbackWorld) =
      Some (Some (Sentinel ErrRollback))"
    by (simp add: cycle_defs eval_defs rollbackWorld_def)
  have q: "map_option (\<lambda>r. requests (snd r))
      (handleCanaryRelease exampleConfig exampleState rollbackWorld) =
      Some [''latest'', ''v2'', ''v1'']"
    by (simp add: cycle_defs eval_defs rollbackWorld_def)
  have x: "map_option (\<lambda>r. last (execs (snd r)))
      (handleCanaryRelease exampleConfig exampleState rollbackWorld) =
      Some (RollbackCommand exampleConfig, ''v1'', ''/src/old.tgz'')"
    by (simp add: cycle_defs eval_defs rollbackWorld_def)
  have a: "map_option (\<lambda>r. lookup (snd r) (avoidReleaseTagKey exampleState))
      (handleCanaryRelease exampleConfig exampleState rollbackWorld) =
      Some (Some (RSet [''v2''], None))"
    by (simp add: cycle_defs eval_defs rollbackWorld_def)
  obtain w' where h': "handleCanaryRelease exampleConfig exampleState rollbackWorld =
      Some (Some (Sentinel ErrRollback), w')"
    using h by auto
  have f: "True \<notin> set (take 1 (faults rollbackWorld)) \<and>
      (\<forall>v e. lookup rollbackWorld (avoidReleaseTagKey exampleState) \<noteq> Some (RString v, e))"
    by (simp add: rollbackWorld_def exampleWorld_def lookup_def)
  note all = rollback_outcomes [where c = exampleConfig and s = exampleState
      and w = rollbackWorld and tag = "''v2''" and e = "Sentinel ErrRollback" and w' = w'
      and once = False]
  note B = all [THEN conjunct2, THEN conjunct1, rule_format, OF f]
  note G = all [THEN conjunct2, THEN conjunct2, THEN conjunct2, THEN conjunct2,
      THEN conjunct2, THEN conjunct2, rule_format, OF h']
  have g: "gitTickerCase False exampleConfig exampleState rollbackWorld =
      Some (Continue (slog LevelWarn ''rollback success'' w'))"
    using G by simp
  have l: "last (logs (slog LevelWarn ''rollback success'' w')) = (LevelWarn, ''rollback success'')"
    by (simp add: slog_def)
  show ?thesis
    using d h q x a g l B by simp
qed

section \<open>Steady-state conditions in the loops of the server\<close>

text \<open>
  Claim C4. On a tick of the canary loop with a latest release that has no matching asset,
  \<open>runServer\<close> returns an error (the sentinel \<open>ErrAssetsNotFound\<close> has been formatted into
  the text of a new error, so \<open>errors.Is\<close> does not find it) and nothing has been run; on a
  tick of the rollout loop with the stable tag in the avoid set, \<open>runServer\<close> returns
  \<open>ErrAvoidReleaseTag\<close>, which the rollout case does not test for, while the canary case
  continues after the same condition.
\<close>

theorem steady_state_conditions_halt:
  "map_option fst (runServer False exampleConfig exampleState [gitTicker] noAssetWorld) =
     Some (Some (Opaque ''can't get release asset: no match assets'')) \<and>
   map_option (\<lambda>r. execs (snd r))
     (runServer False exampleConfig exampleState [gitTicker] noAssetWorld) = Some [] \<and>
   map_option fst (runServer False exampleConfig exampleState [rolloutTicker] stableAvoidedWorld) =
     Some (Some (Sentinel ErrAvoidReleaseTag)) \<and>
   map_option (\<lambda>r. execs (snd r))
     (runServer False exampleConfig exampleState [rolloutTicker] stableAvoidedWorld) = Some [] \<and>
   runServer False exampleConfig exampleState [gitTicker] avoidWorld = None"
  by (simp add: gitTickerCase_def rolloutTickerCase_def handleRollout_def cycle_defs eval_defs
      noAssetWorld_def stableAvoidedWorld_def avoidWorld_def sentinelText_def)

end
